theory Spec2Isabelle
  imports Main "HOL-Library.Sublist"
begin

section \<open>Python strings and scalar values\<close>

text \<open>
  The generator (\<^verbatim>\<open>extras/slang-test-gen/slang-test-gen.py\<close>) works on Python
  strings. A string is modelled as a \<^typ>\<open>string\<close> whose characters are code points
  below 256. The string methods the generator calls are written out below with the
  behaviour of CPython: \<^verbatim>\<open>sub in s\<close>, \<^verbatim>\<open>s.replace(old, new)\<close>,
  \<^verbatim>\<open>s.split(c)\<close> for a one-character separator, \<^verbatim>\<open>sep.join(xs)\<close>,
  \<^verbatim>\<open>s.rstrip()\<close> and \<^verbatim>\<open>s.isdigit()\<close>.
\<close>

fun str_contains :: "string \<Rightarrow> string \<Rightarrow> bool" where
  "str_contains sub [] = (sub = [])"
| "str_contains sub (c # cs) = (prefix sub (c # cs) \<or> str_contains sub cs)"

text \<open>
  \<^verbatim>\<open>s.replace(old, new)\<close> scans from the left, replaces every occurrence it
  meets and continues after the replaced text (occurrences never overlap, inserted text
  is not scanned again). With an empty \<^verbatim>\<open>old\<close>, \<^verbatim>\<open>new\<close> is put before
  every character and at the end.
\<close>

fun str_replace :: "string \<Rightarrow> string \<Rightarrow> string \<Rightarrow> string" where
  "str_replace old new [] = (if old = [] then new else [])"
| "str_replace old new (c # cs) =
     (if old = [] then new @ c # str_replace old new cs
      else if prefix old (c # cs)
        then new @ str_replace old new (drop (length old) (c # cs))
      else c # str_replace old new cs)"

fun str_split :: "char \<Rightarrow> string \<Rightarrow> string list" where
  "str_split sep [] = [[]]"
| "str_split sep (c # cs) =
     (if c = sep then [] # str_split sep cs
      else (case str_split sep cs of
              [] \<Rightarrow> [[c]]
            | l # ls \<Rightarrow> (c # l) # ls))"

fun str_join :: "string \<Rightarrow> string list \<Rightarrow> string" where
  "str_join sep [] = []"
| "str_join sep [l] = l"
| "str_join sep (l # m # ls) = l @ sep @ str_join sep (m # ls)"

definition py_isspace :: "char \<Rightarrow> bool" where
  "py_isspace c \<longleftrightarrow>
     (of_char c :: nat) \<in> {9, 10, 11, 12, 13, 28, 29, 30, 31, 32, 133, 160}"

definition str_rstrip :: "string \<Rightarrow> string" where
  "str_rstrip s = rev (dropWhile py_isspace (rev s))"

definition py_isdigit :: "char \<Rightarrow> bool" where
  "py_isdigit c \<longleftrightarrow>
     (of_char c :: nat) \<in> {48, 49, 50, 51, 52, 53, 54, 55, 56, 57, 178, 179, 185}"

definition str_isdigit :: "string \<Rightarrow> bool" where
  "str_isdigit s \<longleftrightarrow> s \<noteq> [] \<and> list_all py_isdigit s"

text \<open>
  Values whose Python type the code leaves open (template-variable values, the reason of
  a disabled directive) are the scalars a YAML document yields: \<^verbatim>\<open>None\<close>, a
  boolean, an integer or a string. \<open>py_str\<close> is \<^verbatim>\<open>str(v)\<close>, \<open>py_truthy\<close> the
  truth value \<^verbatim>\<open>if v:\<close> tests, \<open>py_isinstance_int\<close> is
  \<^verbatim>\<open>isinstance(v, int)\<close> (Python's \<^verbatim>\<open>bool\<close> is a subclass of
  \<^verbatim>\<open>int\<close>).
\<close>

datatype pyval = PNone | PBool bool | PInt int | PStr string

fun str_of_nat :: "nat \<Rightarrow> string" where
  "str_of_nat n =
     (if n < 10 then [''0123456789'' ! n]
      else str_of_nat (n div 10) @ [''0123456789'' ! (n mod 10)])"

definition str_of_int :: "int \<Rightarrow> string" where
  "str_of_int i = (if i < 0 then ''-'' @ str_of_nat (nat (- i)) else str_of_nat (nat i))"

fun py_str :: "pyval \<Rightarrow> string" where
  "py_str PNone = ''None''"
| "py_str (PBool b) = (if b then ''True'' else ''False'')"
| "py_str (PInt i) = str_of_int i"
| "py_str (PStr s) = s"

fun py_truthy :: "pyval \<Rightarrow> bool" where
  "py_truthy PNone = False"
| "py_truthy (PBool b) = b"
| "py_truthy (PInt i) = (i \<noteq> 0)"
| "py_truthy (PStr s) = (s \<noteq> [])"

fun py_isinstance_int :: "pyval \<Rightarrow> bool" where
  "py_isinstance_int (PInt i) = True"
| "py_isinstance_int (PBool b) = True"
| "py_isinstance_int v = False"

text \<open>Truth value of an \<^verbatim>\<open>Optional[str]\<close>: set and not empty.\<close>

fun opt_truthy :: "string option \<Rightarrow> bool" where
  "opt_truthy None = False"
| "opt_truthy (Some s) = (s \<noteq> [])"

text \<open>
  A Python \<^verbatim>\<open>dict\<close> keeps its keys in insertion order, and the loops of the
  generator run in that order, so a dict is an association list. \<open>dict_set\<close> is
  \<^verbatim>\<open>d[k] = v\<close> (an existing key keeps its place), \<open>dict_merge\<close> is
  \<^verbatim>\<open>{**a, **b}\<close>.
\<close>

fun dict_set :: "('k \<times> 'v) list \<Rightarrow> 'k \<Rightarrow> 'v \<Rightarrow> ('k \<times> 'v) list" where
  "dict_set [] k v = [(k, v)]"
| "dict_set ((k', v') # kvs) k v =
     (if k' = k then (k, v) # kvs else (k', v') # dict_set kvs k v)"

definition dict_merge :: "('k \<times> 'v) list \<Rightarrow> ('k \<times> 'v) list \<Rightarrow> ('k \<times> 'v) list" where
  "dict_merge a b = fold (\<lambda>(k, v) d. dict_set d k v) (a @ b) []"

section \<open>Configuration model\<close>

text \<open>
  The dataclasses of the generator, with the field types of their annotations. Three
  classes have a field \<^verbatim>\<open>name\<close> and two a field \<^verbatim>\<open>description\<close>; the
  fields of \<^verbatim>\<open>TestInput\<close> and \<^verbatim>\<open>TestVariant\<close> carry a prefix here
  (\<^verbatim>\<open>declaration\<close> too: the word is reserved).
  \<^verbatim>\<open>disable_reason\<close> is annotated \<^verbatim>\<open>Optional[str]\<close>, but the header
  code also handles an integer, so it is a scalar value (\<open>PNone\<close> when absent).
\<close>

datatype TestType = SIMPLE | COMPARE_COMPUTE | INTERPRET | CROSS_COMPILE | COMPILE_FAIL | CUSTOM

record TestInput =
  input_name :: string
  input_type :: string
  parameters :: string
  input_declaration :: "string option"

record TestDirective =
  test_type :: TestType
  flags :: string
  filecheck :: "string option"
  enabled :: bool
  disable_reason :: pyval

record TestVariant =
  variant_name :: string
  variant_description :: string
  directives :: "TestDirective list"
  inputs :: "TestInput list"
  template_vars :: "(string \<times> pyval) list"
  shader_code :: "string option"
  additional_header :: "string option"
  filecheck_patterns :: "(string \<times> string list) list"

record TestConfig =
  name :: string
  description :: string
  shader_template :: string
  output_pattern :: string
  variants :: "TestVariant list"
  global_inputs :: "TestInput list"
  global_template_vars :: "(string \<times> pyval) list"
  generation_comment :: "string option"
  default_filecheck_patterns :: "(string \<times> string list) list"
  default_directives :: "TestDirective list"
  output_dir :: "string option"

section \<open>Directive lines\<close>

definition filecheck_part :: "string \<Rightarrow> string option \<Rightarrow> string" where
  "filecheck_part label fc =
     (case fc of
        None \<Rightarrow> ''''
      | Some s \<Rightarrow> (if s \<noteq> [] then ''('' @ label @ ''='' @ s @ '')'' else ''''))"

definition to_test_line :: "TestDirective \<Rightarrow> string" where
  "to_test_line d =
     (let pfx = (if enabled d then '''' else ''DISABLE_'') in
      case test_type d of
        SIMPLE \<Rightarrow>
          ''//'' @ pfx @ ''TEST:SIMPLE'' @ filecheck_part ''filecheck'' (filecheck d)
            @ '': '' @ flags d
      | COMPARE_COMPUTE \<Rightarrow>
          ''//'' @ pfx @ ''TEST(compute):COMPARE_COMPUTE''
            @ filecheck_part ''filecheck-buffer'' (filecheck d) @ '': '' @ flags d
      | INTERPRET \<Rightarrow>
          ''//'' @ pfx @ ''TEST:INTERPRET'' @ filecheck_part ''filecheck'' (filecheck d)
            @ '': '' @ flags d
      | COMPILE_FAIL \<Rightarrow> ''//'' @ pfx @ ''TEST:COMPILE_FAIL: '' @ flags d
      | CROSS_COMPILE \<Rightarrow> ''//'' @ pfx @ ''TEST:CROSS_COMPILE: '' @ flags d
      | CUSTOM \<Rightarrow> ''//'' @ pfx @ flags d)"

section \<open>Paths and the file system\<close>

text \<open>
  A \<^verbatim>\<open>pathlib.Path\<close> (POSIX flavour) is a root flag and a list of components.
  \<open>path_of_str\<close> is the constructor \<^verbatim>\<open>Path(s)\<close>, which drops empty and
  \<^verbatim>\<open>.\<close> components, \<open>path_join\<close> is the operator \<^verbatim>\<open>/\<close> (an absolute
  right operand replaces the left one) and \<open>path_parent\<close> is \<^verbatim>\<open>.parent\<close>.
  Components \<^verbatim>\<open>..\<close> and symbolic links are not resolved.
\<close>

datatype path = Path (is_absolute: bool) (parts: "string list")

definition path_of_str :: "string \<Rightarrow> path" where
  "path_of_str s =
     Path (prefix ''/'' s) (filter (\<lambda>p. p \<noteq> [] \<and> p \<noteq> ''.'') (str_split (CHR ''/'') s))"

definition path_join :: "path \<Rightarrow> path \<Rightarrow> path" where
  "path_join a b = (if is_absolute b then b else Path (is_absolute a) (parts a @ parts b))"

definition path_parent :: "path \<Rightarrow> path" where
  "path_parent p = Path (is_absolute p) (butlast (parts p))"

text \<open>
  The world the generator runs in: the files and directories by absolute path, the
  working directory, and what has been printed. A relative path is looked up from the
  working directory; the root directory always exists.
\<close>

datatype error =
    KeyError string
  | FileNotFoundError
  | IsADirectoryError
  | NotADirectoryError
  | FileExistsError
  | IndexError
  | ValueError

datatype fs_entry = File string | Dir

datatype message = Generating string | Generated string | Failed string error

record world =
  files :: "path \<rightharpoonup> fs_entry"
  cwd :: path
  stdout :: "message list"

definition resolve :: "world \<Rightarrow> path \<Rightarrow> path" where
  "resolve w p = path_join (cwd w) p"

definition lookup :: "world \<Rightarrow> path \<Rightarrow> fs_entry option" where
  "lookup w p = (let q = resolve w p in if parts q = [] then Some Dir else files w q)"

definition path_exists :: "world \<Rightarrow> path \<Rightarrow> bool" where
  "path_exists w p = (lookup w p \<noteq> None)"

text \<open>\<^verbatim>\<open>with open(p, 'r') as f: return f.read()\<close>\<close>

definition read_text :: "world \<Rightarrow> path \<Rightarrow> error + string" where
  "read_text w p =
     (case lookup w p of
        None \<Rightarrow> Inl FileNotFoundError
      | Some Dir \<Rightarrow> Inl IsADirectoryError
      | Some (File content) \<Rightarrow> Inr content)"

text \<open>
  \<^verbatim>\<open>with open(p, 'w') as f: f.write(content)\<close>: the path must not be a directory
  and its parent must be one; the file is created or replaced.
\<close>

definition write_text :: "world \<Rightarrow> path \<Rightarrow> string \<Rightarrow> error + world" where
  "write_text w p content =
     (case lookup w p of
        Some Dir \<Rightarrow> Inl IsADirectoryError
      | _ \<Rightarrow>
         (case lookup w (path_parent (resolve w p)) of
            None \<Rightarrow> Inl FileNotFoundError
          | Some (File x) \<Rightarrow> Inl NotADirectoryError
          | Some Dir \<Rightarrow> Inr (w\<lparr>files := (files w)(resolve w p \<mapsto> File content)\<rparr>)))"

text \<open>
  \<^verbatim>\<open>p.mkdir(parents=True, exist_ok=True)\<close>: every missing directory on the way
  down to \<open>p\<close> is created; a file in the way is an error.
\<close>

fun mkdir_from ::
  "(path \<rightharpoonup> fs_entry) \<Rightarrow> path \<Rightarrow> string list \<Rightarrow> error + (path \<rightharpoonup> fs_entry)" where
  "mkdir_from fs dir [] = Inr fs"
| "mkdir_from fs dir (c # cs) =
     (let q = Path (is_absolute dir) (parts dir @ [c]) in
      case fs q of
        Some Dir \<Rightarrow> mkdir_from fs q cs
      | Some (File x) \<Rightarrow> Inl (if cs = [] then FileExistsError else NotADirectoryError)
      | None \<Rightarrow> mkdir_from (fs(q \<mapsto> Dir)) q cs)"

definition mkdir_parents :: "world \<Rightarrow> path \<Rightarrow> error + world" where
  "mkdir_parents w p =
     (let q = resolve w p in
      case mkdir_from (files w) (Path (is_absolute q) []) (parts q) of
        Inl e \<Rightarrow> Inl e
      | Inr fs \<Rightarrow> Inr (w\<lparr>files := fs\<rparr>))"

section \<open>The generator\<close>

text \<open>
  \<^verbatim>\<open>TestGenerator\<close> holds the configuration, the path of the configuration
  document and the shader template its constructor resolved
  (\<^verbatim>\<open>self.shader_template\<close>, here \<open>resolved_template\<close>).
\<close>

record TestGenerator =
  config :: TestConfig
  config_path :: path
  resolved_template :: string

definition placeholder :: "string \<Rightarrow> string" where
  "placeholder key = ''{{'' @ key @ ''}}''"

definition apply_template_vars :: "string \<Rightarrow> (string \<times> pyval) list \<Rightarrow> string" where
  "apply_template_vars text vars =
     fold (\<lambda>(key, val) result. str_replace (placeholder key) (py_str val) result) vars text"

definition shader_has_test_inputs :: "string \<Rightarrow> bool" where
  "shader_has_test_inputs code = str_contains ''//TEST_INPUT:'' code"

text \<open>
  \<^verbatim>\<open>_generate_header\<close> appends to a list of lines, block by block. Each block is a
  function from the lines so far to the lines after it; the two \<^verbatim>\<open>for\<close> loops
  are folds that append.
\<close>

definition add_generation_notice :: "TestConfig \<Rightarrow> string list \<Rightarrow> string list" where
  "add_generation_notice cfg lines =
     (if opt_truthy (generation_comment cfg)
      then lines @ [''// THIS IS A GENERATED FILE. DO NOT EDIT!'',
                    ''// '' @ the (generation_comment cfg),
                    ''//'']
      else lines)"

definition add_test_description :: "TestConfig \<Rightarrow> TestVariant \<Rightarrow> string list \<Rightarrow> string list" where
  "add_test_description cfg variant lines =
     (let lines = lines @ [''// Test: '' @ name cfg @ '' - '' @ variant_name variant];
          lines = (if variant_description variant \<noteq> []
                   then lines @ [''// '' @ variant_description variant] else lines)
      in lines @ [''//''])"

definition effective_directives :: "TestConfig \<Rightarrow> TestVariant \<Rightarrow> TestDirective list" where
  "effective_directives cfg variant =
     (if directives variant \<noteq> [] then directives variant else default_directives cfg)"

definition add_directive :: "TestDirective \<Rightarrow> string list \<Rightarrow> string list" where
  "add_directive d lines =
     (let lines = lines @ [to_test_line d] in
      if \<not> enabled d \<and> py_truthy (disable_reason d) then
        (if py_isinstance_int (disable_reason d) \<or> str_isdigit (py_str (disable_reason d))
         then lines @ [''// Test disabled, see https://github.com/shader-slang/slang/issues/''
                        @ py_str (disable_reason d)]
         else lines @ [''// Test disabled: '' @ py_str (disable_reason d)])
      else lines)"

definition add_test_input :: "TestInput \<Rightarrow> string list \<Rightarrow> string list" where
  "add_test_input i lines =
     (let lines = lines @ [''//TEST_INPUT: '' @ input_type i @ ''('' @ parameters i
                            @ ''):name '' @ input_name i]
      in if opt_truthy (input_declaration i) then lines @ [the (input_declaration i)] else lines)"

definition all_inputs :: "TestConfig \<Rightarrow> TestVariant \<Rightarrow> TestInput list" where
  "all_inputs cfg variant = global_inputs cfg @ inputs variant"

definition add_test_inputs :: "TestGenerator \<Rightarrow> TestVariant \<Rightarrow> string list \<Rightarrow> string list" where
  "add_test_inputs gen variant lines =
     (if \<not> shader_has_test_inputs (resolved_template gen) then
        (let lines = fold add_test_input (all_inputs (config gen) variant) lines
         in if all_inputs (config gen) variant \<noteq> [] then lines @ [''''] else lines)
      else lines)"

definition add_additional_header :: "TestVariant \<Rightarrow> string list \<Rightarrow> string list" where
  "add_additional_header variant lines =
     (if opt_truthy (additional_header variant)
      then lines @ [the (additional_header variant), '''']
      else lines)"

definition header_lines :: "TestGenerator \<Rightarrow> TestVariant \<Rightarrow> string list" where
  "header_lines gen variant =
     (let lines = [];
          lines = add_generation_notice (config gen) lines;
          lines = add_test_description (config gen) variant lines;
          lines = fold add_directive (effective_directives (config gen) variant) lines;
          lines = lines @ [''''];
          lines = add_test_inputs gen variant lines
      in add_additional_header variant lines)"

definition generate_header :: "TestGenerator \<Rightarrow> TestVariant \<Rightarrow> string" where
  "generate_header gen variant = str_join [CHR 0x0A] (header_lines gen variant)"

definition add_pattern_group :: "string \<times> string list \<Rightarrow> string list \<Rightarrow> string list" where
  "add_pattern_group grp lines =
     fold (\<lambda>pattern ls.
             if str_contains '':'' pattern then ls @ [''// '' @ pattern]
             else ls @ [''// '' @ fst grp @ '': '' @ pattern])
          (snd grp) lines @ ['''']"

definition generate_filecheck_patterns :: "TestGenerator \<Rightarrow> TestVariant \<Rightarrow> string" where
  "generate_filecheck_patterns gen variant =
     (let merged_patterns =
            dict_merge (default_filecheck_patterns (config gen)) (filecheck_patterns variant)
      in if merged_patterns = [] then ''''
         else str_join [CHR 0x0A] (fold add_pattern_group merged_patterns []))"

text \<open>
  \<open>select_shader_code\<close> is the line
  \<^verbatim>\<open>shader_code = variant.shader_code if variant.shader_code else self.shader_template\<close>;
  \<open>render_test_file\<close> is \<^verbatim>\<open>generate_test_file\<close> up to the text it writes.
\<close>

definition select_shader_code :: "TestGenerator \<Rightarrow> TestVariant \<Rightarrow> string" where
  "select_shader_code gen variant =
     (if opt_truthy (shader_code variant) then the (shader_code variant)
      else resolved_template gen)"

definition render_test_file :: "TestGenerator \<Rightarrow> TestVariant \<Rightarrow> string" where
  "render_test_file gen variant =
     (let vars = dict_merge (global_template_vars (config gen)) (template_vars variant);
          header = generate_header gen variant;
          code = select_shader_code gen variant;
          code = apply_template_vars code vars;
          filecheck = generate_filecheck_patterns gen variant;
          test_content = header @ code;
          test_content = (if filecheck \<noteq> []
                          then test_content @ [CHR 0x0A, CHR 0x0A] @ filecheck
                          else test_content);
          lines = str_split (CHR 0x0A) test_content;
          lines = map str_rstrip lines
      in str_join [CHR 0x0A] lines)"

section \<open>Resolving the shader template\<close>

text \<open>
  \<^verbatim>\<open>_load_shader_template\<close>. A \<^verbatim>\<open>Path\<close> object is always true, so
  \<^verbatim>\<open>if shader_file:\<close> asks whether the caller gave a shader file at all.
\<close>

definition load_shader_template ::
  "world \<Rightarrow> TestConfig \<Rightarrow> path \<Rightarrow> path option \<Rightarrow> error + string" where
  "load_shader_template w cfg cfg_path shader_file =
     (case shader_file of
        Some f \<Rightarrow> read_text w f
      | None \<Rightarrow>
         (let template_path = path_of_str (shader_template cfg) in
          if is_absolute template_path \<and> path_exists w template_path
            then read_text w template_path
          else
            (let config_dir = path_parent cfg_path;
                 relative_path = path_join config_dir template_path in
             if path_exists w relative_path then read_text w relative_path
             else if path_exists w template_path then read_text w template_path
             else Inr (shader_template cfg))))"

text \<open>The constructor \<^verbatim>\<open>TestGenerator(config, config_path, shader_file)\<close>.\<close>

definition new_TestGenerator ::
  "world \<Rightarrow> TestConfig \<Rightarrow> path \<Rightarrow> path option \<Rightarrow> error + TestGenerator" where
  "new_TestGenerator w cfg cfg_path shader_file =
     (case load_shader_template w cfg cfg_path shader_file of
        Inl e \<Rightarrow> Inl e
      | Inr t \<Rightarrow> Inr \<lparr>config = cfg, config_path = cfg_path, resolved_template = t\<rparr>)"

section \<open>Writing the files\<close>

definition generate_test_file ::
  "TestGenerator \<Rightarrow> TestVariant \<Rightarrow> path \<Rightarrow> world \<Rightarrow> error + world" where
  "generate_test_file gen variant output_path w =
     write_text w output_path (render_test_file gen variant)"

text \<open>
  \<^verbatim>\<open>generate_all_tests\<close>. The filename comes from
  \<^verbatim>\<open>output_pattern.format(name=..., variant_name=...)\<close>; the format
  mini-language of \<^verbatim>\<open>str.format\<close> is a parameter \<open>fmt\<close> here (pattern, name,
  variant name), with the errors it can raise. It is called outside the
  \<^verbatim>\<open>try\<close>, so its error is not reported as a failed variant. The loop over the
  variants returns the world it leaves behind and the exception that ended it, if any.
\<close>

type_synonym formatter = "string \<Rightarrow> string \<Rightarrow> string \<Rightarrow> error + string"

fun generate_variants ::
  "formatter \<Rightarrow> TestGenerator \<Rightarrow> path \<Rightarrow> TestVariant list \<Rightarrow> world \<Rightarrow> world \<times> error option" where
  "generate_variants fmt gen dir [] w = (w, None)"
| "generate_variants fmt gen dir (variant # rest) w =
     (case fmt (output_pattern (config gen)) (name (config gen)) (variant_name variant) of
        Inl e \<Rightarrow> (w, Some e)
      | Inr filename \<Rightarrow>
         (let output_path = path_join dir (path_of_str filename) in
          case generate_test_file gen variant output_path w of
            Inr w' \<Rightarrow>
              generate_variants fmt gen dir rest
                (w'\<lparr>stdout := stdout w' @ [Generated filename]\<rparr>)
          | Inl e \<Rightarrow> (w\<lparr>stdout := stdout w @ [Failed filename e]\<rparr>, Some e)))"

definition generate_all_tests ::
  "formatter \<Rightarrow> TestGenerator \<Rightarrow> path \<Rightarrow> world \<Rightarrow> world \<times> error option" where
  "generate_all_tests fmt gen dir w =
     (let w = w\<lparr>stdout := stdout w @ [Generating (name (config gen))]\<rparr> in
      case mkdir_parents w dir of
        Inl e \<Rightarrow> (w, Some e)
      | Inr w' \<Rightarrow> generate_variants fmt gen dir (variants (config gen)) w')"

section \<open>Loading the configuration document\<close>

text \<open>
  \<^verbatim>\<open>from_yaml\<close> and the \<^verbatim>\<open>from_dict\<close> methods read the mappings that
  \<^verbatim>\<open>yaml.safe_load\<close> returns. A mapping of the document is a record with one
  optional field for each key the code reads: \<open>None\<close> is a key the document does not
  have, and a value has the type its dataclass field is annotated with. The functions
  start from the loaded data; reading and parsing the file are outside the model.
  \<open>get_required\<close> is \<^verbatim>\<open>data[key]\<close>, \<open>get_default\<close> is
  \<^verbatim>\<open>data.get(key, default)\<close>.
\<close>

definition get_required :: "string \<Rightarrow> 'a option \<Rightarrow> error + 'a" where
  "get_required key x = (case x of None \<Rightarrow> Inl (KeyError key) | Some v \<Rightarrow> Inr v)"

definition get_default :: "'a \<Rightarrow> 'a option \<Rightarrow> 'a" where
  "get_default d x = (case x of None \<Rightarrow> d | Some v \<Rightarrow> v)"

text \<open>A list comprehension over a function that can raise stops at the first error.\<close>

fun map_err :: "('a \<Rightarrow> error + 'b) \<Rightarrow> 'a list \<Rightarrow> error + 'b list" where
  "map_err f [] = Inr []"
| "map_err f (x # xs) =
     (case f x of
        Inl e \<Rightarrow> Inl e
      | Inr y \<Rightarrow> (case map_err f xs of Inl e \<Rightarrow> Inl e | Inr ys \<Rightarrow> Inr (y # ys)))"

record input_data =
  in_name :: "string option"
  in_type :: "string option"
  in_parameters :: "string option"
  in_declaration :: "string option"

record directive_data =
  dd_type :: "string option"
  dd_flags :: "string option"
  dd_filecheck :: "string option"
  dd_enabled :: "bool option"
  dd_disable_reason :: "pyval option"

record variant_data =
  vd_description :: "string option"
  vd_directives :: "directive_data list option"
  vd_inputs :: "input_data list option"
  vd_template_vars :: "(string \<times> pyval) list option"
  vd_shader_code :: "string option"
  vd_additional_header :: "string option"
  vd_filecheck_patterns :: "(string \<times> string list) list option"

record config_data =
  cd_name :: "string option"
  cd_description :: "string option"
  cd_shader_template :: "string option"
  cd_output_pattern :: "string option"
  cd_global_inputs :: "input_data list option"
  cd_global_template_vars :: "(string \<times> pyval) list option"
  cd_generation_comment :: "string option"
  cd_default_filecheck_patterns :: "(string \<times> string list) list option"
  cd_default_directives :: "directive_data list option"
  cd_output_dir :: "string option"

record yaml_data =
  yd_test_config :: "config_data option"
  yd_variants :: "(string \<times> variant_data) list option"

definition TestInput_from_dict :: "input_data \<Rightarrow> error + TestInput" where
  "TestInput_from_dict data =
     (case get_required ''name'' (in_name data) of
        Inl e \<Rightarrow> Inl e
      | Inr n \<Rightarrow>
         (case get_required ''type'' (in_type data) of
            Inl e \<Rightarrow> Inl e
          | Inr t \<Rightarrow>
              Inr \<lparr>input_name = n,
                   input_type = t,
                   parameters = get_default '''' (in_parameters data),
                   input_declaration = in_declaration data\<rparr>))"

text \<open>\<^verbatim>\<open>TestType.__members__\<close>: the member names of the enumeration.\<close>

definition TestType_members :: "(string \<times> TestType) list" where
  "TestType_members =
     [(''SIMPLE'', SIMPLE), (''COMPARE_COMPUTE'', COMPARE_COMPUTE), (''INTERPRET'', INTERPRET),
      (''CROSS_COMPILE'', CROSS_COMPILE), (''COMPILE_FAIL'', COMPILE_FAIL), (''CUSTOM'', CUSTOM)]"

definition TestDirective_from_dict :: "directive_data \<Rightarrow> TestDirective" where
  "TestDirective_from_dict data =
     (let test_type_str = get_default ''SIMPLE'' (dd_type data);
          tt = (case map_of TestType_members test_type_str of
                  Some t \<Rightarrow> t
                | None \<Rightarrow> CUSTOM)
      in \<lparr>test_type = tt,
          flags = get_default '''' (dd_flags data),
          filecheck = dd_filecheck data,
          enabled = get_default True (dd_enabled data),
          disable_reason = get_default PNone (dd_disable_reason data)\<rparr>)"

definition TestVariant_from_dict :: "string \<Rightarrow> variant_data \<Rightarrow> error + TestVariant" where
  "TestVariant_from_dict vname data =
     (let ds = map TestDirective_from_dict (get_default [] (vd_directives data)) in
      case map_err TestInput_from_dict (get_default [] (vd_inputs data)) of
        Inl e \<Rightarrow> Inl e
      | Inr ins \<Rightarrow>
          Inr \<lparr>variant_name = vname,
               variant_description = get_default '''' (vd_description data),
               directives = ds,
               inputs = ins,
               template_vars = get_default [] (vd_template_vars data),
               shader_code = vd_shader_code data,
               additional_header = vd_additional_header data,
               filecheck_patterns = get_default [] (vd_filecheck_patterns data)\<rparr>)"

definition from_yaml :: "yaml_data \<Rightarrow> error + TestConfig" where
  "from_yaml data =
     (case get_required ''test_config'' (yd_test_config data) of
        Inl e \<Rightarrow> Inl e
      | Inr cfg \<Rightarrow>
         (let dflt = (case cd_default_directives cfg of
                        None \<Rightarrow> []
                      | Some ds \<Rightarrow> map TestDirective_from_dict ds) in
          case map_err (\<lambda>(vname, vdata). TestVariant_from_dict vname vdata)
                 (get_default [] (yd_variants data)) of
            Inl e \<Rightarrow> Inl e
          | Inr vs \<Rightarrow>
             (case map_err TestInput_from_dict (get_default [] (cd_global_inputs cfg)) of
                Inl e \<Rightarrow> Inl e
              | Inr gins \<Rightarrow>
                 (case get_required ''name'' (cd_name cfg) of
                    Inl e \<Rightarrow> Inl e
                  | Inr n \<Rightarrow>
                     (case get_required ''shader_template'' (cd_shader_template cfg) of
                        Inl e \<Rightarrow> Inl e
                      | Inr st \<Rightarrow>
                          Inr \<lparr>name = n,
                               description = get_default '''' (cd_description cfg),
                               shader_template = st,
                               output_pattern =
                                 get_default ''{name}-{variant_name}.slang''
                                   (cd_output_pattern cfg),
                               variants = vs,
                               global_inputs = gins,
                               global_template_vars =
                                 get_default [] (cd_global_template_vars cfg),
                               generation_comment = cd_generation_comment cfg,
                               default_filecheck_patterns =
                                 get_default [] (cd_default_filecheck_patterns cfg),
                               default_directives = dflt,
                               output_dir = cd_output_dir cfg\<rparr>)))))"

section \<open>The precondition of the idempotence property\<close>


section \<open>Concrete documents\<close>

text \<open>
  The inputs at which the theorems below are evaluated: a document with one global
  input and one default directive, a variant that sets nothing of its own, and a file
  system with a shader next to the configuration document and another one in the
  working directory.
\<close>

definition example_config :: TestConfig where
  "example_config =
     \<lparr>name = ''t'', description = '''', shader_template = ''void main() {}'',
      output_pattern = ''{name}-{variant_name}.slang'', variants = [],
      global_inputs = [\<lparr>input_name = ''buf'', input_type = ''ubuffer'',
                        parameters = ''data=[0], stride=4'', input_declaration = None\<rparr>],
      global_template_vars = [], generation_comment = None,
      default_filecheck_patterns = [],
      default_directives = [\<lparr>test_type = SIMPLE, flags = ''-target hlsl'', filecheck = None,
                             enabled = True, disable_reason = PNone\<rparr>],
      output_dir = None\<rparr>"

definition example_variant :: TestVariant where
  "example_variant =
     \<lparr>variant_name = ''v'', variant_description = '''', directives = [], inputs = [],
      template_vars = [], shader_code = None, additional_header = None,
      filecheck_patterns = []\<rparr>"

definition example_generator :: TestGenerator where
  "example_generator =
     \<lparr>config = example_config, config_path = Path False [''cfg.yaml''],
      resolved_template = ''void main() {}''\<rparr>"

definition example_world :: world where
  "example_world =
     \<lparr>files = [Path True [''proj''] \<mapsto> Dir,
               Path True [''proj'', ''cfg''] \<mapsto> Dir,
               Path True [''proj'', ''cfg'', ''shader.slang''] \<mapsto> File ''near the config'',
               Path True [''work''] \<mapsto> Dir,
               Path True [''work'', ''shader.slang''] \<mapsto> File ''in the working directory'',
               Path True [''abs.slang''] \<mapsto> File ''absolute'',
               Path True [''out''] \<mapsto> Dir,
               Path True [''out'', ''t-b.slang''] \<mapsto> Dir],
      cwd = Path True [''work''],
      stdout = []\<rparr>"

text \<open>
  What \<^verbatim>\<open>'{name}-{variant_name}.slang'.format(name=n, variant_name=v)\<close> returns,
  for any pattern: the formatter of the default output pattern.
\<close>

definition example_format :: formatter where
  "example_format pattern n v = Inr (n @ ''-'' @ v @ ''.slang'')"

definition example_yaml :: yaml_data where
  "example_yaml =
     \<lparr>yd_test_config = Some
        \<lparr>cd_name = Some ''t'', cd_description = None,
         cd_shader_template = Some ''void main() {}'', cd_output_pattern = None,
         cd_global_inputs = Some [\<lparr>in_name = Some ''buf'', in_type = None,
                                   in_parameters = None, in_declaration = None\<rparr>],
         cd_global_template_vars = None, cd_generation_comment = None,
         cd_default_filecheck_patterns = None, cd_default_directives = None,
         cd_output_dir = None\<rparr>,
      yd_variants = Some []\<rparr>"

definition example_batch :: TestGenerator where
  "example_batch =
     \<lparr>config = example_config\<lparr>variants :=
         [example_variant\<lparr>variant_name := ''a''\<rparr>,
          example_variant\<lparr>variant_name := ''b''\<rparr>,
          example_variant\<lparr>variant_name := ''c''\<rparr>]\<rparr>,
      config_path = Path False [''cfg.yaml''],
      resolved_template = ''void main() {}''\<rparr>"

definition example_yaml_variant :: yaml_data where
  "example_yaml_variant =
     \<lparr>yd_test_config = Some
        \<lparr>cd_name = Some ''t'', cd_description = None,
         cd_shader_template = Some ''void main() {}'', cd_output_pattern = None,
         cd_global_inputs = None,
         cd_global_template_vars = None, cd_generation_comment = None,
         cd_default_filecheck_patterns = None, cd_default_directives = None,
         cd_output_dir = None\<rparr>,
      yd_variants = Some
        [(''v'',
          \<lparr>vd_description = None, vd_directives = None,
           vd_inputs = Some [\<lparr>in_name = Some ''tex'', in_type = None,
                               in_parameters = None, in_declaration = None\<rparr>],
           vd_template_vars = None, vd_shader_code = None, vd_additional_header = None,
           vd_filecheck_patterns = None\<rparr>)]\<rparr>"

section \<open>Evaluation rules\<close>

lemmas example_defs = example_config_def example_variant_def example_generator_def

lemmas header_defs = header_lines_def add_generation_notice_def add_test_description_def
  effective_directives_def add_directive_def add_test_input_def all_inputs_def
  add_test_inputs_def add_additional_header_def to_test_line_def filecheck_part_def
  shader_has_test_inputs_def

lemmas render_defs = render_test_file_def generate_header_def header_defs
  generate_filecheck_patterns_def dict_merge_def select_shader_code_def
  apply_template_vars_def str_rstrip_def py_isspace_def placeholder_def

lemmas fs_defs = lookup_def resolve_def path_join_def path_parent_def path_of_str_def
  path_exists_def read_text_def

section \<open>The header, block by block\<close>

text \<open>Every block of the header only appends to the lines it is given.\<close>

lemma add_directive_append: "add_directive d lines = lines @ add_directive d []"
  by (simp add: add_directive_def Let_def)

lemma add_test_input_append: "add_test_input i lines = lines @ add_test_input i []"
  by (simp add: add_test_input_def Let_def)

lemma fold_append_blocks:
  assumes "\<And>x ls. f x ls = ls @ f x []"
  shows "fold f xs ls = ls @ concat (map (\<lambda>x. f x []) xs)"
proof (induction xs arbitrary: ls)
  case Nil
  show ?case by simp
next
  case (Cons x xs)
  have "fold f (x # xs) ls = fold f xs (f x ls)" by simp
  also have "\<dots> = f x ls @ concat (map (\<lambda>x. f x []) xs)" by (rule Cons.IH)
  also have "f x ls = ls @ f x []" by (rule assms)
  finally show ?case by simp
qed

lemma fold_add_directive:
  "fold add_directive ds lines = lines @ concat (map (\<lambda>d. add_directive d []) ds)"
  by (rule fold_append_blocks) (rule add_directive_append)

lemma fold_add_test_input:
  "fold add_test_input ins lines = lines @ concat (map (\<lambda>i. add_test_input i []) ins)"
  by (rule fold_append_blocks) (rule add_test_input_append)

lemma add_test_inputs_append: "add_test_inputs gen v lines = lines @ add_test_inputs gen v []"
  by (simp add: add_test_inputs_def Let_def fold_add_test_input)

lemma add_additional_header_append:
  "add_additional_header v lines = lines @ add_additional_header v []"
  by (simp add: add_additional_header_def)

lemma header_lines_blocks:
  "header_lines gen v =
     add_test_description (config gen) v (add_generation_notice (config gen) [])
     @ concat (map (\<lambda>d. add_directive d []) (effective_directives (config gen) v))
     @ [''''] @ add_test_inputs gen v [] @ add_additional_header v []"
proof -
  let ?pre = "add_test_description (config gen) v (add_generation_notice (config gen) [])"
  let ?ds = "concat (map (\<lambda>d. add_directive d []) (effective_directives (config gen) v))"
  have "header_lines gen v =
          add_additional_header v (add_test_inputs gen v ((?pre @ ?ds) @ ['''']))"
    by (simp add: header_lines_def Let_def fold_add_directive)
  also have "\<dots> = add_test_inputs gen v ((?pre @ ?ds) @ ['''']) @ add_additional_header v []"
    by (rule add_additional_header_append)
  also have "add_test_inputs gen v ((?pre @ ?ds) @ ['''']) =
               ((?pre @ ?ds) @ ['''']) @ add_test_inputs gen v []"
    by (rule add_test_inputs_append)
  finally show ?thesis by simp
qed

section \<open>Input metadata and the marker scan\<close>

text \<open>
  Claim C1. For a variant whose \<^verbatim>\<open>shader_code\<close> is set and contains the marker
  \<^verbatim>\<open>//TEST_INPUT:\<close>, rendering should emit no input metadata lines. The code
  scans the resolved document template, whatever the variant's own shader code is. At
  the example document (one global input, a template without the marker) and a variant
  whose shader code is an input line of its own, the header has the input line of the
  global input and the rendered file has the line twice.
\<close>

theorem input_scan_reads_document_template:
  "shader_has_test_inputs ''//TEST_INPUT: ubuffer(data=[0], stride=4):name buf''
   \<and> header_lines example_generator
        (example_variant\<lparr>shader_code :=
           Some ''//TEST_INPUT: ubuffer(data=[0], stride=4):name buf''\<rparr>)
       = [''// Test: t - v'', ''//'', ''//TEST:SIMPLE: -target hlsl'', '''',
          ''//TEST_INPUT: ubuffer(data=[0], stride=4):name buf'', '''']
   \<and> str_split (CHR 0x0A) (render_test_file example_generator
        (example_variant\<lparr>shader_code :=
           Some ''//TEST_INPUT: ubuffer(data=[0], stride=4):name buf''\<rparr>))
       = [''// Test: t - v'', ''//'', ''//TEST:SIMPLE: -target hlsl'', '''',
          ''//TEST_INPUT: ubuffer(data=[0], stride=4):name buf'',
          ''//TEST_INPUT: ubuffer(data=[0], stride=4):name buf'']"
  by (simp add: example_defs render_defs Let_def)

section \<open>Directive selection\<close>

text \<open>
  Claim C2. The directive list rendered into the header is the variant's own list when
  that list is not empty, and the document's default list when it is empty; the two
  lists are never mixed. The header is the description block, then the lines of
  exactly that list in order, then the blank line and the later blocks.
\<close>

theorem effective_directives_all_or_nothing:
  "(directives v \<noteq> [] \<longrightarrow> effective_directives (config gen) v = directives v)
   \<and> (directives v = [] \<longrightarrow>
        effective_directives (config gen) v = default_directives (config gen))
   \<and> header_lines gen v =
       add_test_description (config gen) v (add_generation_notice (config gen) [])
       @ concat (map (\<lambda>d. add_directive d [])
                   (if directives v \<noteq> [] then directives v
                    else default_directives (config gen)))
       @ [''''] @ add_test_inputs gen v [] @ add_additional_header v []"
proof -
  have "effective_directives (config gen) v =
          (if directives v \<noteq> [] then directives v else default_directives (config gen))"
    by (simp add: effective_directives_def)
  then show ?thesis
    using header_lines_blocks [of gen v] by simp
qed

theorem effective_directives_all_or_nothing_witness:
  "directives (example_variant\<lparr>directives :=
       [\<lparr>test_type = CUSTOM, flags = ''RUN: x'', filecheck = None, enabled = True,
         disable_reason = PNone\<rparr>]\<rparr>) \<noteq> []
   \<and> effective_directives (config example_generator)
        (example_variant\<lparr>directives :=
           [\<lparr>test_type = CUSTOM, flags = ''RUN: x'', filecheck = None, enabled = True,
             disable_reason = PNone\<rparr>]\<rparr>)
       = [\<lparr>test_type = CUSTOM, flags = ''RUN: x'', filecheck = None, enabled = True,
           disable_reason = PNone\<rparr>]
   \<and> directives example_variant = []
   \<and> effective_directives (config example_generator) example_variant
       = default_directives example_config"
  using effective_directives_all_or_nothing [of
      "example_variant\<lparr>directives :=
         [\<lparr>test_type = CUSTOM, flags = ''RUN: x'', filecheck = None, enabled = True,
           disable_reason = PNone\<rparr>]\<rparr>" example_generator]
    effective_directives_all_or_nothing [of example_variant example_generator]
  by (simp add: example_variant_def example_generator_def)

section \<open>Input concatenation\<close>

text \<open>
  Claim C3. The input list used for rendering is the global inputs followed by the
  variant's inputs: its length is the sum of the two lengths, its first part is the
  global list and the rest is the variant's list, each in its own order. When the
  template has no input marker, the input block of the header is the lines of that
  list in order, closed by a blank line when the list is not empty.
\<close>

theorem all_inputs_globals_first:
  "all_inputs cfg v = global_inputs cfg @ inputs v
   \<and> length (all_inputs cfg v) = length (global_inputs cfg) + length (inputs v)
   \<and> take (length (global_inputs cfg)) (all_inputs cfg v) = global_inputs cfg
   \<and> drop (length (global_inputs cfg)) (all_inputs cfg v) = inputs v
   \<and> (\<not> shader_has_test_inputs (resolved_template gen) \<longrightarrow>
        add_test_inputs gen v lines =
          lines @ concat (map (\<lambda>i. add_test_input i [])
                            (global_inputs (config gen) @ inputs v))
                @ (if global_inputs (config gen) @ inputs v \<noteq> [] then [''''] else []))"
  by (simp add: all_inputs_def add_test_inputs_def Let_def fold_add_test_input)

theorem all_inputs_globals_first_witness:
  "\<not> shader_has_test_inputs (resolved_template example_generator)
   \<and> add_test_inputs example_generator
        (example_variant\<lparr>inputs :=
           [\<lparr>input_name = ''tex'', input_type = ''Texture2D'',
             parameters = ''size=4, content=zero'', input_declaration = None\<rparr>]\<rparr>) []
       = [''//TEST_INPUT: ubuffer(data=[0], stride=4):name buf'',
          ''//TEST_INPUT: Texture2D(size=4, content=zero):name tex'', '''']"
  using all_inputs_globals_first [of example_config
      "example_variant\<lparr>inputs :=
           [\<lparr>input_name = ''tex'', input_type = ''Texture2D'',
             parameters = ''size=4, content=zero'', input_declaration = None\<rparr>]\<rparr>"
      example_generator "[]"]
  by (simp add: example_defs shader_has_test_inputs_def add_test_input_def)

section \<open>Template-variable substitution\<close>







section \<open>Shader-template resolution\<close>



section \<open>Fail-fast generation\<close>

lemma generate_variants_append:
  "generate_variants fmt gen dir pre w = (w1, None) \<Longrightarrow>
   generate_variants fmt gen dir (pre @ rest) w = generate_variants fmt gen dir rest w1"
proof (induction pre arbitrary: w)
  case Nil
  then show ?case by simp
next
  case (Cons u us)
  then show ?case
    by (auto simp add: Let_def split: sum.splits)
qed

lemma lookup_stdout_update: "lookup (w\<lparr>stdout := s\<rparr>) q = lookup w q"
  by (simp add: lookup_def resolve_def Let_def)

lemma write_text_written:
  "write_text w p c = Inr w' \<Longrightarrow> lookup w' p = Some (File c)"
  by (auto simp add: write_text_def lookup_def resolve_def Let_def
           split: option.splits fs_entry.splits if_splits)

lemma write_text_keeps_files:
  "write_text w p c = Inr w' \<Longrightarrow> lookup w q = Some (File x) \<Longrightarrow>
   \<exists>y. lookup w' q = Some (File y)"
  by (auto simp add: write_text_def lookup_def resolve_def Let_def
           split: option.splits fs_entry.splits if_splits)

text \<open>A file that exists is still a file after any run of the loop, finished or aborted.\<close>

lemma generate_variants_keeps_files:
  "generate_variants fmt gen dir vs w = (w', r) \<Longrightarrow> lookup w q = Some (File x) \<Longrightarrow>
   \<exists>y. lookup w' q = Some (File y)"
proof (induction vs arbitrary: w x)
  case Nil
  then show ?case by simp
next
  case (Cons u us)
  show ?case
  proof (cases "fmt (output_pattern (config gen)) (name (config gen)) (variant_name u)")
    case (Inl e)
    with Cons.prems show ?thesis by simp
  next
    case fn: (Inr fn)
    let ?p = "path_join dir (path_of_str fn)"
    show ?thesis
    proof (cases "generate_test_file gen u ?p w")
      case (Inl e)
      with fn Cons.prems show ?thesis by (auto simp add: Let_def lookup_stdout_update)
    next
      case (Inr w2)
      then have wt: "write_text w ?p (render_test_file gen u) = Inr w2"
        by (simp add: generate_test_file_def)
      from write_text_keeps_files [OF wt Cons.prems(2)]
      obtain y where y: "lookup w2 q = Some (File y)" ..
      then have y': "lookup (w2\<lparr>stdout := stdout w2 @ [Generated fn]\<rparr>) q = Some (File y)"
        by (simp add: lookup_stdout_update)
      from Cons.prems(1) fn Inr
      have "generate_variants fmt gen dir us (w2\<lparr>stdout := stdout w2 @ [Generated fn]\<rparr>)
              = (w', r)"
        by (simp add: Let_def)
      from Cons.IH [OF this y'] show ?thesis .
    qed
  qed
qed

text \<open>After a run that finished, every variant's output path holds a file.\<close>

lemma generate_variants_ok_written:
  "generate_variants fmt gen dir vs w = (w', None) \<Longrightarrow> u \<in> set vs \<Longrightarrow>
   \<exists>fn c. fmt (output_pattern (config gen)) (name (config gen)) (variant_name u) = Inr fn
          \<and> lookup w' (path_join dir (path_of_str fn)) = Some (File c)"
proof (induction vs arbitrary: w)
  case Nil
  then show ?case by simp
next
  case (Cons a as)
  from Cons.prems(1) obtain fn where fn:
    "fmt (output_pattern (config gen)) (name (config gen)) (variant_name a) = Inr fn"
    by (auto split: sum.splits)
  let ?p = "path_join dir (path_of_str fn)"
  from Cons.prems(1) fn obtain w2 where w2: "generate_test_file gen a ?p w = Inr w2"
    by (auto simp add: Let_def split: sum.splits)
  let ?w3 = "w2\<lparr>stdout := stdout w2 @ [Generated fn]\<rparr>"
  from Cons.prems(1) fn w2 have rest: "generate_variants fmt gen dir as ?w3 = (w', None)"
    by (simp add: Let_def)
  show ?case
  proof (cases "u = a")
    case True
    from w2 have "lookup w2 ?p = Some (File (render_test_file gen a))"
      by (simp add: generate_test_file_def write_text_written)
    then have "lookup ?w3 ?p = Some (File (render_test_file gen a))"
      by (simp add: lookup_stdout_update)
    from generate_variants_keeps_files [OF rest this] fn True show ?thesis by auto
  next
    case False
    with Cons.prems(2) have "u \<in> set as" by simp
    from Cons.IH [OF rest this] show ?thesis .
  qed
qed

text \<open>
  Claim C6. Let the variants be \<open>pre @ v # post\<close>, let the variants of \<open>pre\<close> be
  generated without error, leaving the world \<open>w1\<close>, and let generating \<open>v\<close> fail
  with \<open>e\<close>. Then \<^verbatim>\<open>generate_all_tests\<close> prints the failure of \<open>v\<close> and
  raises \<open>e\<close>; the result is the same whatever variants come after \<open>v\<close>, so none of
  them is processed; the files are those of \<open>w1\<close>, and the output path of every
  variant of \<open>pre\<close> still holds a file.
\<close>

theorem generate_all_tests_fail_fast:
  assumes vs: "variants (config gen) = pre @ v # post"
    and mk: "mkdir_parents (w\<lparr>stdout := stdout w @ [Generating (name (config gen))]\<rparr>) dir
               = Inr w0"
    and pre: "generate_variants fmt gen dir pre w0 = (w1, None)"
    and fn: "fmt (output_pattern (config gen)) (name (config gen)) (variant_name v)
               = Inr filename"
    and fail: "generate_test_file gen v (path_join dir (path_of_str filename)) w1 = Inl e"
  shows "generate_all_tests fmt gen dir w
           = (w1\<lparr>stdout := stdout w1 @ [Failed filename e]\<rparr>, Some e)
         \<and> (\<forall>post'. generate_variants fmt gen dir (pre @ v # post') w0
                       = generate_variants fmt gen dir (pre @ v # post) w0)
         \<and> files (fst (generate_all_tests fmt gen dir w)) = files w1
         \<and> (\<forall>u \<in> set pre. \<exists>fn c.
               fmt (output_pattern (config gen)) (name (config gen)) (variant_name u) = Inr fn
               \<and> lookup (fst (generate_all_tests fmt gen dir w))
                     (path_join dir (path_of_str fn)) = Some (File c))"
proof -
  have step: "generate_variants fmt gen dir (v # rest) w1
                = (w1\<lparr>stdout := stdout w1 @ [Failed filename e]\<rparr>, Some e)" for rest
    using fn fail by (simp add: Let_def)
  have run: "generate_variants fmt gen dir (pre @ v # rest) w0
               = (w1\<lparr>stdout := stdout w1 @ [Failed filename e]\<rparr>, Some e)" for rest
    using generate_variants_append [OF pre] step by simp
  have all: "generate_all_tests fmt gen dir w
               = (w1\<lparr>stdout := stdout w1 @ [Failed filename e]\<rparr>, Some e)"
    using mk vs run [of post] by (simp add: generate_all_tests_def Let_def)
  have later: "\<forall>post'. generate_variants fmt gen dir (pre @ v # post') w0
                       = generate_variants fmt gen dir (pre @ v # post) w0"
    by (simp add: run)
  have kept: "\<exists>fn c.
               fmt (output_pattern (config gen)) (name (config gen)) (variant_name u) = Inr fn
               \<and> lookup (w1\<lparr>stdout := stdout w1 @ [Failed filename e]\<rparr>)
                     (path_join dir (path_of_str fn)) = Some (File c)"
    if "u \<in> set pre" for u
    using generate_variants_ok_written [OF pre that] by (simp add: lookup_stdout_update)
  from all later kept show ?thesis by simp
qed

text \<open>
  Three variants \<open>a\<close>, \<open>b\<close>, \<open>c\<close> are written to \<^verbatim>\<open>/out\<close>, where
  \<^verbatim>\<open>t-b.slang\<close> is a directory: \<open>a\<close> is written, \<open>b\<close> fails and is reported,
  \<open>c\<close> is never reached, and the file of \<open>a\<close> is there at the end.
\<close>

theorem generate_all_tests_fail_fast_witness:
  "snd (generate_all_tests example_format example_batch (Path True [''out'']) example_world)
     = Some IsADirectoryError
   \<and> stdout (fst (generate_all_tests example_format example_batch (Path True [''out''])
                    example_world))
     = [Generating ''t'', Generated ''t-a.slang'', Failed ''t-b.slang'' IsADirectoryError]
   \<and> lookup (fst (generate_all_tests example_format example_batch (Path True [''out''])
                    example_world)) (Path True [''out'', ''t-a.slang''])
     = Some (File (render_test_file example_batch (example_variant\<lparr>variant_name := ''a''\<rparr>)))
   \<and> lookup (fst (generate_all_tests example_format example_batch (Path True [''out''])
                    example_world)) (Path True [''out'', ''t-c.slang''])
     = None"
proof -
  let ?a = "example_variant\<lparr>variant_name := ''a''\<rparr>"
  let ?b = "example_variant\<lparr>variant_name := ''b''\<rparr>"
  let ?c = "example_variant\<lparr>variant_name := ''c''\<rparr>"
  let ?dir = "Path True [''out'']"
  let ?w0 = "example_world\<lparr>stdout := [Generating ''t'']\<rparr>"
  let ?w1 = "example_world\<lparr>
               files := (files example_world)
                          (Path True [''out'', ''t-a.slang''] \<mapsto>
                             File (render_test_file example_batch ?a)),
               stdout := [Generating ''t'', Generated ''t-a.slang'']\<rparr>"
  have vs: "variants (config example_batch) = [?a] @ ?b # [?c]"
    by (simp add: example_batch_def)
  have mk: "mkdir_parents
              (example_world\<lparr>stdout := stdout example_world
                                @ [Generating (name (config example_batch))]\<rparr>) ?dir = Inr ?w0"
    by (simp add: mkdir_parents_def example_world_def example_batch_def example_config_def
        resolve_def path_join_def Let_def)
  have pre: "generate_variants example_format example_batch ?dir [?a] ?w0 = (?w1, None)"
    by (simp add: example_format_def example_batch_def example_config_def
        example_variant_def generate_test_file_def write_text_def example_world_def
        fs_defs Let_def)
  have fn: "example_format (output_pattern (config example_batch))
              (name (config example_batch)) (variant_name ?b) = Inr ''t-b.slang''"
    by (simp add: example_format_def example_batch_def example_config_def
        example_variant_def)
  have fail: "generate_test_file example_batch ?b
                (path_join ?dir (path_of_str ''t-b.slang'')) ?w1 = Inl IsADirectoryError"
    by (simp add: generate_test_file_def write_text_def example_world_def fs_defs Let_def)
  from generate_all_tests_fail_fast [OF vs mk pre fn fail]
  show ?thesis
    by (simp add: lookup_def resolve_def path_join_def example_world_def Let_def)
qed

section \<open>Blank separator lines\<close>

text \<open>
  Claim C7. One blank line should follow the directive block, and one the input block,
  also when the shader body comes next. The header ends with the empty string the code
  appends as the separator, but \<^verbatim>\<open>"\n".join(lines)\<close> puts no newline after
  the last element and the body is concatenated right behind it. In the example
  document without inputs the body is the line after the directive; with the global
  input the body is the line after the input line.
\<close>

theorem blank_separator_lost_before_body:
  "str_split (CHR 0x0A)
     (render_test_file (example_generator\<lparr>config := example_config\<lparr>global_inputs := []\<rparr>\<rparr>)
        example_variant)
     = [''// Test: t - v'', ''//'', ''//TEST:SIMPLE: -target hlsl'', ''void main() {}'']
   \<and> str_split (CHR 0x0A) (render_test_file example_generator example_variant)
     = [''// Test: t - v'', ''//'', ''//TEST:SIMPLE: -target hlsl'', '''',
        ''//TEST_INPUT: ubuffer(data=[0], stride=4):name buf'', ''void main() {}'']"
  by (simp add: example_defs render_defs Let_def)

section \<open>Directive kinds\<close>

text \<open>
  Claim C8. \<^verbatim>\<open>TestDirective.from_dict\<close> returns a directive for every kind
  string, it has no error result: a missing kind is \<open>SIMPLE\<close>, a member name of the
  enumeration is that member, and every other string is \<open>CUSTOM\<close>.
\<close>

theorem unknown_kind_is_custom:
  "(dd_type data = None \<longrightarrow> test_type (TestDirective_from_dict data) = SIMPLE)
   \<and> (\<forall>s t. dd_type data = Some s \<and> (s, t) \<in> set TestType_members \<longrightarrow>
         test_type (TestDirective_from_dict data) = t)
   \<and> (\<forall>s. dd_type data = Some s
          \<and> s \<notin> {''SIMPLE'', ''COMPARE_COMPUTE'', ''INTERPRET'', ''CROSS_COMPILE'',
                  ''COMPILE_FAIL'', ''CUSTOM''} \<longrightarrow>
         test_type (TestDirective_from_dict data) = CUSTOM)"
  by (auto simp add: TestDirective_from_dict_def get_default_def TestType_members_def Let_def)

theorem unknown_kind_is_custom_witness:
  "test_type (TestDirective_from_dict
      \<lparr>dd_type = Some ''simple'', dd_flags = Some ''-x'', dd_filecheck = None,
       dd_enabled = None, dd_disable_reason = None\<rparr>) = CUSTOM
   \<and> test_type (TestDirective_from_dict
      \<lparr>dd_type = Some ''INTERPRET'', dd_flags = Some ''-x'', dd_filecheck = None,
       dd_enabled = None, dd_disable_reason = None\<rparr>) = INTERPRET
   \<and> test_type (TestDirective_from_dict
      \<lparr>dd_type = None, dd_flags = Some ''-x'', dd_filecheck = None,
       dd_enabled = None, dd_disable_reason = None\<rparr>) = SIMPLE"
  using unknown_kind_is_custom [of
      "\<lparr>dd_type = Some ''simple'', dd_flags = Some ''-x'', dd_filecheck = None,
        dd_enabled = None, dd_disable_reason = None\<rparr>"]
    unknown_kind_is_custom [of
      "\<lparr>dd_type = Some ''INTERPRET'', dd_flags = Some ''-x'', dd_filecheck = None,
        dd_enabled = None, dd_disable_reason = None\<rparr>"]
    unknown_kind_is_custom [of
      "\<lparr>dd_type = None, dd_flags = Some ''-x'', dd_filecheck = None,
        dd_enabled = None, dd_disable_reason = None\<rparr>"]
  by (simp add: TestType_members_def)

section \<open>An empty shader code\<close>



section \<open>Required fields of an input\<close>

lemma map_err_fails:
  "x \<in> set xs \<Longrightarrow> f x = Inl e \<Longrightarrow> \<exists>e'. map_err f xs = Inl e'"
proof (induction xs)
  case Nil
  then show ?case by simp
next
  case (Cons y ys)
  show ?case
  proof (cases "f y")
    case (Inl e1)
    then show ?thesis by simp
  next
    case (Inr r)
    with Cons obtain e' where "map_err f ys = Inl e'" by auto
    with Inr show ?thesis by simp
  qed
qed

lemma map_err_error_from:
  "map_err f xs = Inl e \<Longrightarrow> \<exists>x \<in> set xs. f x = Inl e"
  by (induction xs) (auto split: sum.splits)

lemma TestInput_from_dict_no_type:
  "in_type d = None \<Longrightarrow> \<exists>k. TestInput_from_dict d = Inl (KeyError k)"
  by (cases "in_name d") (simp_all add: TestInput_from_dict_def get_required_def)

lemma TestInput_from_dict_KeyError:
  "TestInput_from_dict d = Inl e \<Longrightarrow> \<exists>k. e = KeyError k"
  by (auto simp add: TestInput_from_dict_def get_required_def split: option.splits)

lemma TestVariant_from_dict_KeyError:
  "TestVariant_from_dict n vd = Inl e \<Longrightarrow> \<exists>k. e = KeyError k"
  by (auto simp add: TestVariant_from_dict_def Let_def split: sum.splits
           dest!: map_err_error_from TestInput_from_dict_KeyError)

lemma TestVariant_from_dict_no_type:
  assumes "i \<in> set (get_default [] (vd_inputs vd))" and "in_type i = None"
  shows "\<exists>e. TestVariant_from_dict n vd = Inl e"
proof -
  from TestInput_from_dict_no_type [OF assms(2)]
  obtain k where "TestInput_from_dict i = Inl (KeyError k)" ..
  from map_err_fails [where f = TestInput_from_dict, OF assms(1) this]
  obtain e' where "map_err TestInput_from_dict (get_default [] (vd_inputs vd)) = Inl e'" ..
  then show ?thesis by (simp add: TestVariant_from_dict_def)
qed

lemma from_yaml_KeyError:
  "from_yaml data = Inl e \<Longrightarrow> \<exists>k. e = KeyError k"
  by (auto simp add: from_yaml_def Let_def get_required_def split: sum.splits option.splits
           dest!: map_err_error_from TestInput_from_dict_KeyError TestVariant_from_dict_KeyError)

lemma from_yaml_variant_input:
  assumes "(vn, vd) \<in> set (get_default [] (yd_variants data))"
    and "i \<in> set (get_default [] (vd_inputs vd))" and "in_type i = None"
  shows "\<exists>e. from_yaml data = Inl e"
proof (cases "yd_test_config data")
  case None
  then show ?thesis by (simp add: from_yaml_def get_required_def)
next
  case (Some cfg)
  from TestVariant_from_dict_no_type [OF assms(2,3)]
  obtain e where "(\<lambda>(vname, vdata). TestVariant_from_dict vname vdata) (vn, vd) = Inl e"
    by auto
  from map_err_fails [where f = "\<lambda>(vname, vdata). TestVariant_from_dict vname vdata",
      OF assms(1) this]
  obtain e' where "map_err (\<lambda>(vname, vdata). TestVariant_from_dict vname vdata)
                     (get_default [] (yd_variants data)) = Inl e'" ..
  with Some show ?thesis by (simp add: from_yaml_def get_required_def Let_def)
qed

lemma from_yaml_global_input:
  assumes "yd_test_config data = Some cfg"
    and "i \<in> set (get_default [] (cd_global_inputs cfg))" and "in_type i = None"
  shows "\<exists>e. from_yaml data = Inl e"
proof -
  from TestInput_from_dict_no_type [OF assms(3)]
  obtain k where "TestInput_from_dict i = Inl (KeyError k)" ..
  from map_err_fails [where f = TestInput_from_dict, OF assms(2) this]
  obtain e' where
    "map_err TestInput_from_dict (get_default [] (cd_global_inputs cfg)) = Inl e'" ..
  with assms(1) show ?thesis
    by (simp add: from_yaml_def get_required_def Let_def split: sum.splits)
qed

text \<open>
  Claim C10. When an input entry of the document, in \<^verbatim>\<open>global_inputs\<close> or in the
  \<^verbatim>\<open>inputs\<close> of a variant, has no \<^verbatim>\<open>type\<close> key, loading the document raises
  a \<^verbatim>\<open>KeyError\<close>. For a single entry: \<^verbatim>\<open>name\<close> and \<^verbatim>\<open>type\<close> are
  required, a missing \<^verbatim>\<open>parameters\<close> is the empty string and a missing
  \<^verbatim>\<open>declaration\<close> is absent.
\<close>

theorem input_type_is_required:
  "((\<exists>cfg i. yd_test_config data = Some cfg
              \<and> i \<in> set (get_default [] (cd_global_inputs cfg)) \<and> in_type i = None)
     \<or> (\<exists>vn vd i. (vn, vd) \<in> set (get_default [] (yd_variants data))
              \<and> i \<in> set (get_default [] (vd_inputs vd)) \<and> in_type i = None)
     \<longrightarrow> (\<exists>k. from_yaml data = Inl (KeyError k)))
   \<and> (in_type d = None \<longrightarrow> (\<exists>k. TestInput_from_dict d = Inl (KeyError k)))
   \<and> (in_name d = Some n \<and> in_type d = None \<longrightarrow>
        TestInput_from_dict d = Inl (KeyError ''type''))
   \<and> (in_name d = Some n \<and> in_type d = Some t \<longrightarrow>
        TestInput_from_dict d =
          Inr \<lparr>input_name = n, input_type = t,
               parameters = (case in_parameters d of None \<Rightarrow> '''' | Some p \<Rightarrow> p),
               input_declaration = in_declaration d\<rparr>)"
proof -
  have "\<exists>k. from_yaml data = Inl (KeyError k)"
    if "(\<exists>cfg i. yd_test_config data = Some cfg
              \<and> i \<in> set (get_default [] (cd_global_inputs cfg)) \<and> in_type i = None)
     \<or> (\<exists>vn vd i. (vn, vd) \<in> set (get_default [] (yd_variants data))
              \<and> i \<in> set (get_default [] (vd_inputs vd)) \<and> in_type i = None)"
  proof -
    from that have "\<exists>e. from_yaml data = Inl e"
      using from_yaml_global_input from_yaml_variant_input by blast
    then obtain e where e: "from_yaml data = Inl e" ..
    from from_yaml_KeyError [OF e] e show ?thesis by auto
  qed
  moreover have "in_type d = None \<longrightarrow> (\<exists>k. TestInput_from_dict d = Inl (KeyError k))"
    using TestInput_from_dict_no_type by blast
  moreover have "in_name d = Some n \<and> in_type d = None \<longrightarrow>
      TestInput_from_dict d = Inl (KeyError ''type'')"
    by (simp add: TestInput_from_dict_def get_required_def)
  moreover have "in_name d = Some n \<and> in_type d = Some t \<longrightarrow>
        TestInput_from_dict d =
          Inr \<lparr>input_name = n, input_type = t,
               parameters = (case in_parameters d of None \<Rightarrow> '''' | Some p \<Rightarrow> p),
               input_declaration = in_declaration d\<rparr>"
    by (simp add: TestInput_from_dict_def get_required_def get_default_def)
  ultimately show ?thesis by blast
qed

text \<open>
  The example document has one global input with a name and no type; a variant of it
  has such an input of its own. An entry with name and type only is loaded with empty
  parameters and no declaration.
\<close>

theorem input_type_is_required_witness:
  "(\<exists>k. from_yaml example_yaml = Inl (KeyError k))
   \<and> (\<exists>k. from_yaml example_yaml_variant = Inl (KeyError k))
   \<and> TestInput_from_dict
        \<lparr>in_name = Some ''buf'', in_type = None, in_parameters = None, in_declaration = None\<rparr>
       = Inl (KeyError ''type'')
   \<and> TestInput_from_dict
        \<lparr>in_name = Some ''buf'', in_type = Some ''ubuffer'', in_parameters = None,
         in_declaration = None\<rparr>
       = Inr \<lparr>input_name = ''buf'', input_type = ''ubuffer'', parameters = '''',
              input_declaration = None\<rparr>"
proof -
  let ?bad = "\<lparr>in_name = Some ''buf'', in_type = None, in_parameters = None,
               in_declaration = None\<rparr>"
  let ?good = "\<lparr>in_name = Some ''buf'', in_type = Some ''ubuffer'', in_parameters = None,
                in_declaration = None\<rparr>"
  have g: "\<exists>cfg i. yd_test_config example_yaml = Some cfg
              \<and> i \<in> set (get_default [] (cd_global_inputs cfg)) \<and> in_type i = None"
    by (simp add: example_yaml_def get_default_def)
  have v: "\<exists>vn vd i. (vn, vd) \<in> set (get_default [] (yd_variants example_yaml_variant))
              \<and> i \<in> set (get_default [] (vd_inputs vd)) \<and> in_type i = None"
    by (simp add: example_yaml_variant_def get_default_def)
  from input_type_is_required [of example_yaml ?bad "''buf''" "''ubuffer''"] g
  have a: "\<exists>k. from_yaml example_yaml = Inl (KeyError k)"
    and c: "TestInput_from_dict ?bad = Inl (KeyError ''type'')"
    by simp_all
  from input_type_is_required [of example_yaml_variant ?good "''buf''" "''ubuffer''"] v
  have b: "\<exists>k. from_yaml example_yaml_variant = Inl (KeyError k)"
    and d: "TestInput_from_dict ?good
              = Inr \<lparr>input_name = ''buf'', input_type = ''ubuffer'', parameters = '''',
                     input_declaration = None\<rparr>"
    by simp_all
  from a b c d show ?thesis by simp
qed

end
